theory Spec2Isabelle
  imports Main
begin

section \<open>JavaScript values, exceptions and HTTP messages\<close>

text \<open>
  An embedding of \<^verbatim>\<open>src/api.js\<close>, the session client of the study assistant. Each
  exported function becomes a function from the state of the browser to a result and a
  new state. One call runs at a time: other code that could run while a call awaits is not
  part of the model. \<^verbatim>\<open>localStorage\<close>, \<^verbatim>\<open>console\<close>, \<^verbatim>\<open>res.blob()\<close> and the DOM are
  taken not to throw.
\<close>

text \<open>
  The values that flow through the module: parsed JSON bodies, function arguments
  and the results of \<^verbatim>\<open>localStorage.getItem\<close>. Numbers are restricted to integers.
  An object is the list of its own properties, each name at most once.
\<close>

datatype jsval =
    JUndefined
  | JNull
  | JBool bool
  | JNum int
  | JStr string
  | JArr "jsval list"
  | JObj "(string \<times> jsval) list"

text \<open>
  What a rejected promise carries. \<open>Error m\<close> is \<^verbatim>\<open>new Error(m)\<close>; \<open>TypeError\<close> is
  raised by a property read on \<^verbatim>\<open>null\<close> or \<^verbatim>\<open>undefined\<close>; \<open>SyntaxError\<close> is raised by
  \<^verbatim>\<open>res.json()\<close> on a body that is not JSON.
\<close>

datatype exn = Error string | TypeError | SyntaxError

text \<open>JavaScript truthiness, as used by \<^verbatim>\<open>&&\<close>, \<^verbatim>\<open>||\<close> and \<^verbatim>\<open>!\<close>.\<close>

fun truthy :: "jsval \<Rightarrow> bool" where
  "truthy JUndefined = False"
| "truthy JNull = False"
| "truthy (JBool b) = b"
| "truthy (JNum n) = (n \<noteq> 0)"
| "truthy (JStr s) = (s \<noteq> [])"
| "truthy (JArr xs) = True"
| "truthy (JObj kvs) = True"

text \<open>\<^verbatim>\<open>a || b\<close>\<close>

definition js_or :: "jsval \<Rightarrow> jsval \<Rightarrow> jsval" where
  "js_or a b = (if truthy a then a else b)"

text \<open>Decimal digits of a natural number, for \<^verbatim>\<open>String(n)\<close> and template literals.\<close>

fun show_nat :: "nat \<Rightarrow> string" where
  "show_nat n =
     (if n < 10 then [char_of (48 + n)]
      else show_nat (n div 10) @ [char_of (48 + n mod 10)])"

declare show_nat.simps [simp del]

fun join :: "string \<Rightarrow> string list \<Rightarrow> string" where
  "join sep [] = []"
| "join sep [x] = x"
| "join sep (x # y # ys) = x @ sep @ join sep (y # ys)"

text \<open>
  \<^verbatim>\<open>String(v)\<close>: the conversion applied by \<^verbatim>\<open>localStorage.setItem\<close>, by
  \<^verbatim>\<open>new Error(v)\<close> and by template literals. An array joins its elements with a comma,
  \<^verbatim>\<open>null\<close> and \<^verbatim>\<open>undefined\<close> elements giving the empty string.
\<close>

fun js_String :: "jsval \<Rightarrow> string" where
  "js_String JUndefined = ''undefined''"
| "js_String JNull = ''null''"
| "js_String (JBool b) = (if b then ''true'' else ''false'')"
| "js_String (JNum n) = (if n < 0 then ''-'' @ show_nat (nat (- n)) else show_nat (nat n))"
| "js_String (JStr s) = s"
| "js_String (JArr xs) =
     join '','' (map (\<lambda>x. if x = JUndefined \<or> x = JNull then [] else js_String x) xs)"
| "js_String (JObj kvs) = ''[object Object]''"

text \<open>
  A property read \<^verbatim>\<open>v.k\<close>. Only the names \<^verbatim>\<open>detail\<close>, \<^verbatim>\<open>access_token\<close> and
  \<^verbatim>\<open>refresh_token\<close> are read by the code, and no built-in prototype defines them, so a
  read on a primitive or an array yields \<^verbatim>\<open>undefined\<close>.
\<close>

fun get_prop :: "jsval \<Rightarrow> string \<Rightarrow> exn + jsval" where
  "get_prop JUndefined k = Inl TypeError"
| "get_prop JNull k = Inl TypeError"
| "get_prop (JObj kvs) k = Inr (case map_of kvs k of None \<Rightarrow> JUndefined | Some v \<Rightarrow> v)"
| "get_prop v k = Inr JUndefined"

datatype req_body = NoBody | JsonBody jsval | FormData "(string \<times> jsval) list"

record request =
  http_method :: string
  url :: string
  headers :: "(string \<times> string) list"
  body :: req_body

text \<open>
  A response: its status, the result of parsing its body as JSON (\<open>None\<close> when the body
  is not JSON, so that \<^verbatim>\<open>res.json()\<close> rejects) and its body as a blob.
\<close>

record response =
  status :: nat
  parsed :: "jsval option"
  blob :: string

text \<open>\<^verbatim>\<open>res.ok\<close>\<close>

definition ok :: "response \<Rightarrow> bool" where
  "ok res = (200 \<le> status res \<and> status res \<le> 299)"

text \<open>\<^verbatim>\<open>await res.json()\<close>\<close>

definition res_json :: "response \<Rightarrow> exn + jsval" where
  "res_json res = (case parsed res of None \<Rightarrow> Inl SyntaxError | Some v \<Rightarrow> Inr v)"

text \<open>\<^verbatim>\<open>await res.json().catch(() => ({}))\<close>\<close>

definition res_json_catch :: "response \<Rightarrow> jsval" where
  "res_json_catch res = (case parsed res of None \<Rightarrow> JObj [] | Some v \<Rightarrow> v)"

section \<open>The browser: storage, effects and the backend\<close>

text \<open>
  Every effect of the module is recorded in a trace, in the order in which it happens.
\<close>

datatype event =
    Fetch request
  | SetItem string string
  | RemoveItem string
  | Navigate string
  | ConsoleError string exn
  | SaveFile string string

record world =
  api_env :: "string option"
  storage :: "string \<rightharpoonup> string"
  trace :: "event list"

text \<open>
  The backend and the transport together: given the requests sent so far and the next
  request, either the transport fails (\<open>Inl\<close>, \<^verbatim>\<open>fetch\<close> rejects) or a response arrives.
\<close>

type_synonym backend = "request list \<Rightarrow> request \<Rightarrow> exn + response"

type_synonym 'a result = "(exn + 'a) \<times> world"

primrec sent_of :: "event list \<Rightarrow> request list" where
  "sent_of [] = []"
| "sent_of (e # es) = (case e of Fetch r \<Rightarrow> r # sent_of es | _ \<Rightarrow> sent_of es)"

definition sent :: "world \<Rightarrow> request list" where
  "sent w = sent_of (trace w)"

definition fetch :: "backend \<Rightarrow> request \<Rightarrow> world \<Rightarrow> (exn + response) \<times> world" where
  "fetch be req w = (be (sent w) req, w\<lparr>trace := trace w @ [Fetch req]\<rparr>)"

text \<open>\<^verbatim>\<open>localStorage.getItem(k)\<close>: the stored string, or \<^verbatim>\<open>null\<close>.\<close>

definition getItem :: "world \<Rightarrow> string \<Rightarrow> jsval" where
  "getItem w k = (case storage w k of None \<Rightarrow> JNull | Some s \<Rightarrow> JStr s)"

text \<open>\<^verbatim>\<open>localStorage.setItem(k, v)\<close> stores \<^verbatim>\<open>String(v)\<close>.\<close>

definition setItem :: "string \<Rightarrow> jsval \<Rightarrow> world \<Rightarrow> world" where
  "setItem k v w =
     w\<lparr>storage := (storage w)(k \<mapsto> js_String v), trace := trace w @ [SetItem k (js_String v)]\<rparr>"

definition removeItem :: "string \<Rightarrow> world \<Rightarrow> world" where
  "removeItem k w = w\<lparr>storage := (storage w)(k := None), trace := trace w @ [RemoveItem k]\<rparr>"

text \<open>\<^verbatim>\<open>window.location.href = u\<close>\<close>

definition navigate :: "string \<Rightarrow> world \<Rightarrow> world" where
  "navigate u w = w\<lparr>trace := trace w @ [Navigate u]\<rparr>"

text \<open>\<^verbatim>\<open>console.error(label, error)\<close>\<close>

definition console_error :: "string \<Rightarrow> exn \<Rightarrow> world \<Rightarrow> world" where
  "console_error label e w = w\<lparr>trace := trace w @ [ConsoleError label e]\<rparr>"

text \<open>
  The object URL, the temporary link and the click on it: the browser saves the blob
  under the given file name.
\<close>

definition save_file :: "string \<Rightarrow> string \<Rightarrow> world \<Rightarrow> world" where
  "save_file name content w = w\<lparr>trace := trace w @ [SaveFile name content]\<rparr>"

text \<open>\<^verbatim>\<open>process.env.REACT_APP_API_BASE || "http://localhost:8000"\<close>\<close>

definition API_BASE :: "world \<Rightarrow> string" where
  "API_BASE w =
     (case api_env w of
        None \<Rightarrow> ''http://localhost:8000''
      | Some s \<Rightarrow> if s \<noteq> [] then s else ''http://localhost:8000'')"

text \<open>
  \<^verbatim>\<open>throw new Error(error.detail || dflt)\<close>: the exception that leaves the statement,
  a \<open>TypeError\<close> when \<^verbatim>\<open>error\<close> is \<^verbatim>\<open>null\<close>.
\<close>

definition throw_detail :: "jsval \<Rightarrow> string \<Rightarrow> exn" where
  "throw_detail error dflt =
     (case get_prop error ''detail'' of
        Inl e \<Rightarrow> e
      | Inr detail \<Rightarrow> Error (js_String (js_or detail (JStr dflt))))"

section \<open>Auth helpers\<close>

definition getAuthHeaders :: "world \<Rightarrow> (string \<times> string) list" where
  "getAuthHeaders w =
     (let token = getItem w ''access_token'' in
      [(''Content-Type'', ''application/json'')] @
      (if truthy token then [(''Authorization'', ''Bearer '' @ js_String token)] else []))"

text \<open>The request built by \<open>refreshAccessToken\<close> (lines 93 to 97).\<close>

definition refresh_request :: "world \<Rightarrow> jsval \<Rightarrow> request" where
  "refresh_request w refreshToken =
     \<lparr>http_method = ''POST'', url = API_BASE w @ ''/api/auth/refresh'',
      headers = [(''Content-Type'', ''application/json'')],
      body = JsonBody (JObj [(''refresh_token'', refreshToken)])\<rparr>"

definition refreshAccessToken :: "backend \<Rightarrow> world \<Rightarrow> bool \<times> world" where
  "refreshAccessToken be w =
     (let refreshToken = getItem w ''refresh_token'' in
      if \<not> truthy refreshToken then (False, w)
      else
        (case fetch be (refresh_request w refreshToken) w of
           (Inl error, w1) \<Rightarrow> (False, w1)
         | (Inr res, w1) \<Rightarrow>
             if \<not> ok res then (False, w1)
             else
               (case res_json res of
                  Inl error \<Rightarrow> (False, w1)
                | Inr data \<Rightarrow>
                    (case get_prop data ''access_token'' of
                       Inl error \<Rightarrow> (False, w1)
                     | Inr tok \<Rightarrow> (True, setItem ''access_token'' tok w1)))))"

text \<open>The error that \<open>handleAuthError\<close> throws when the refresh failed.\<close>

definition session_expired :: exn where
  "session_expired = Error ''Session expired. Please login again.''"

definition handleAuthError :: "backend \<Rightarrow> response \<Rightarrow> world \<Rightarrow> bool result" where
  "handleAuthError be res w =
     (if status res = 401 then
        (case refreshAccessToken be w of
           (refreshed, w1) \<Rightarrow>
             if \<not> refreshed then
               (Inl session_expired,
                navigate ''/login'' (removeItem ''refresh_token'' (removeItem ''access_token'' w1)))
             else (Inr True, w1))
      else (Inr False, w))"

section \<open>Authentication APIs\<close>

definition registerUser_request :: "world \<Rightarrow> jsval \<Rightarrow> jsval \<Rightarrow> jsval \<Rightarrow> request" where
  "registerUser_request w email phone fullName =
     \<lparr>http_method = ''POST'', url = API_BASE w @ ''/api/auth/register'',
      headers = [(''Content-Type'', ''application/json'')],
      body = JsonBody (JObj [(''email'', email), (''phone'', js_or phone (JStr [])),
                             (''full_name'', fullName)])\<rparr>"

definition registerUser :: "backend \<Rightarrow> jsval \<Rightarrow> jsval \<Rightarrow> jsval \<Rightarrow> world \<Rightarrow> jsval result" where
  "registerUser be email phone fullName w =
     (case fetch be (registerUser_request w email phone fullName) w of
        (Inl e, w1) \<Rightarrow> (Inl e, w1)
      | (Inr res, w1) \<Rightarrow>
          if \<not> ok res then
            (case res_json res of
               Inl e \<Rightarrow> (Inl e, w1)
             | Inr error \<Rightarrow> (Inl (throw_detail error ''Registration failed''), w1))
          else (res_json res, w1))"

definition sendOTP_request :: "world \<Rightarrow> jsval \<Rightarrow> jsval \<Rightarrow> request" where
  "sendOTP_request w phone email =
     \<lparr>http_method = ''POST'', url = API_BASE w @ ''/api/auth/send-otp'',
      headers = [(''Content-Type'', ''application/json'')],
      body = JsonBody (JObj [(''email'', email), (''phone'', phone)])\<rparr>"

definition sendOTP :: "backend \<Rightarrow> jsval \<Rightarrow> jsval \<Rightarrow> world \<Rightarrow> jsval result" where
  "sendOTP be phone email w =
     (case fetch be (sendOTP_request w phone email) w of
        (Inl e, w1) \<Rightarrow> (Inl e, w1)
      | (Inr res, w1) \<Rightarrow>
          if \<not> ok res then
            (case res_json res of
               Inl e \<Rightarrow> (Inl e, w1)
             | Inr error \<Rightarrow> (Inl (throw_detail error ''Failed to send OTP''), w1))
          else (res_json res, w1))"

definition verifyOTP_request :: "world \<Rightarrow> jsval \<Rightarrow> jsval \<Rightarrow> request" where
  "verifyOTP_request w email otp =
     \<lparr>http_method = ''POST'', url = API_BASE w @ ''/api/auth/verify-otp'',
      headers = [(''Content-Type'', ''application/json'')],
      body = JsonBody (JObj [(''email'', email), (''otp'', otp)])\<rparr>"

definition verifyOTP :: "backend \<Rightarrow> jsval \<Rightarrow> jsval \<Rightarrow> world \<Rightarrow> jsval result" where
  "verifyOTP be email otp w =
     (case fetch be (verifyOTP_request w email otp) w of
        (Inl e, w1) \<Rightarrow> (Inl e, w1)
      | (Inr res, w1) \<Rightarrow>
          if \<not> ok res then
            (case res_json res of
               Inl e \<Rightarrow> (Inl e, w1)
             | Inr error \<Rightarrow> (Inl (throw_detail error ''Invalid OTP''), w1))
          else
            (case res_json res of
               Inl e \<Rightarrow> (Inl e, w1)
             | Inr data \<Rightarrow>
                 (case get_prop data ''access_token'' of
                    Inl e \<Rightarrow> (Inl e, w1)
                  | Inr access \<Rightarrow>
                      (let w2 = setItem ''access_token'' access w1 in
                       case get_prop data ''refresh_token'' of
                         Inl e \<Rightarrow> (Inl e, w2)
                       | Inr refresh \<Rightarrow> (Inr data, setItem ''refresh_token'' refresh w2)))))"

definition logout :: "world \<Rightarrow> jsval result" where
  "logout w = (Inr JUndefined, removeItem ''refresh_token'' (removeItem ''access_token'' w))"

section \<open>Protected APIs\<close>

text \<open>
  Each protected function calls itself again when \<open>handleAuthError\<close> returns true.
  Nothing bounds this recursion, so each is a partial function: \<open>None\<close> stands for a
  call that never settles.
\<close>

definition getUserProfile_request :: "world \<Rightarrow> request" where
  "getUserProfile_request w =
     \<lparr>http_method = ''GET'', url = API_BASE w @ ''/api/user/profile'',
      headers = getAuthHeaders w, body = NoBody\<rparr>"

partial_function (option) getUserProfile :: "backend \<Rightarrow> world \<Rightarrow> jsval result option" where
  "getUserProfile be w =
     (case fetch be (getUserProfile_request w) w of
        (Inl e, w1) \<Rightarrow> Some (Inl e, w1)
      | (Inr res, w1) \<Rightarrow>
          (case handleAuthError be res w1 of
             (Inl e, w2) \<Rightarrow> Some (Inl e, w2)
           | (Inr retry, w2) \<Rightarrow>
               if retry then getUserProfile be w2
               else if \<not> ok res then
                 Some (Inl (throw_detail (res_json_catch res) ''Failed to fetch profile''), w2)
               else Some (res_json res, w2)))"

definition summarizeText_request :: "world \<Rightarrow> jsval \<Rightarrow> request" where
  "summarizeText_request w text =
     \<lparr>http_method = ''POST'', url = API_BASE w @ ''/api/summarize'',
      headers = getAuthHeaders w, body = JsonBody (JObj [(''text'', text)])\<rparr>"

partial_function (option) summarizeText ::
  "backend \<Rightarrow> jsval \<Rightarrow> world \<Rightarrow> jsval result option" where
  "summarizeText be text w =
     (case fetch be (summarizeText_request w text) w of
        (Inl e, w1) \<Rightarrow> Some (Inl e, w1)
      | (Inr res, w1) \<Rightarrow>
          (case handleAuthError be res w1 of
             (Inl e, w2) \<Rightarrow> Some (Inl e, w2)
           | (Inr retry, w2) \<Rightarrow>
               if retry then summarizeText be text w2
               else if \<not> ok res then
                 Some (Inl (throw_detail (res_json_catch res) ''Failed to summarize text''), w2)
               else Some (res_json res, w2)))"

definition summarizeYouTube_request :: "world \<Rightarrow> jsval \<Rightarrow> request" where
  "summarizeYouTube_request w url' =
     \<lparr>http_method = ''POST'', url = API_BASE w @ ''/api/summarize'',
      headers = getAuthHeaders w, body = JsonBody (JObj [(''youtube_url'', url')])\<rparr>"

partial_function (option) summarizeYouTube ::
  "backend \<Rightarrow> jsval \<Rightarrow> world \<Rightarrow> jsval result option" where
  "summarizeYouTube be url' w =
     (case fetch be (summarizeYouTube_request w url') w of
        (Inl e, w1) \<Rightarrow> Some (Inl e, w1)
      | (Inr res, w1) \<Rightarrow>
          (case handleAuthError be res w1 of
             (Inl e, w2) \<Rightarrow> Some (Inl e, w2)
           | (Inr retry, w2) \<Rightarrow>
               if retry then summarizeYouTube be url' w2
               else if \<not> ok res then
                 Some (Inl (throw_detail (res_json_catch res)
                   (''HTTP '' @ show_nat (status res) @ '': Failed to summarize YouTube'')), w2)
               else Some (res_json res, w2)))"

definition summarizePDF_request :: "world \<Rightarrow> jsval \<Rightarrow> request" where
  "summarizePDF_request w file =
     (let token = getItem w ''access_token'' in
      \<lparr>http_method = ''POST'', url = API_BASE w @ ''/api/summarize-pdf'',
       headers = (if truthy token then [(''Authorization'', ''Bearer '' @ js_String token)] else []),
       body = FormData [(''file'', file)]\<rparr>)"

partial_function (option) summarizePDF ::
  "backend \<Rightarrow> jsval \<Rightarrow> world \<Rightarrow> jsval result option" where
  "summarizePDF be file w =
     (case fetch be (summarizePDF_request w file) w of
        (Inl e, w1) \<Rightarrow> Some (Inl e, w1)
      | (Inr res, w1) \<Rightarrow>
          (case handleAuthError be res w1 of
             (Inl e, w2) \<Rightarrow> Some (Inl e, w2)
           | (Inr retry, w2) \<Rightarrow>
               if retry then summarizePDF be file w2
               else if \<not> ok res then
                 Some (Inl (throw_detail (res_json_catch res) ''Failed to summarize PDF''), w2)
               else Some (res_json res, w2)))"

section \<open>Quiz APIs\<close>

definition generateQuiz_request :: "world \<Rightarrow> jsval \<Rightarrow> request" where
  "generateQuiz_request w summary =
     \<lparr>http_method = ''POST'', url = API_BASE w @ ''/api/quiz'',
      headers = getAuthHeaders w, body = JsonBody (JObj [(''text'', summary)])\<rparr>"

partial_function (option) generateQuiz ::
  "backend \<Rightarrow> jsval \<Rightarrow> world \<Rightarrow> jsval result option" where
  "generateQuiz be summary w =
     (case fetch be (generateQuiz_request w summary) w of
        (Inl e, w1) \<Rightarrow> Some (Inl e, w1)
      | (Inr res, w1) \<Rightarrow>
          (case handleAuthError be res w1 of
             (Inl e, w2) \<Rightarrow> Some (Inl e, w2)
           | (Inr retry, w2) \<Rightarrow>
               if retry then generateQuiz be summary w2
               else if \<not> ok res then
                 Some (Inl (throw_detail (res_json_catch res) ''Failed to generate quiz''), w2)
               else Some (res_json res, w2)))"

definition downloadQuizPdf_request :: "world \<Rightarrow> jsval \<Rightarrow> jsval \<Rightarrow> request" where
  "downloadQuizPdf_request w title quizData =
     \<lparr>http_method = ''POST'', url = API_BASE w @ ''/api/download-quiz'',
      headers = [(''Content-Type'', ''application/json'')],
      body = JsonBody (JObj [(''title'', title), (''quiz_data'', quizData)])\<rparr>"

text \<open>
  The whole body is inside \<^verbatim>\<open>try\<close>: every exception reaches the \<^verbatim>\<open>catch\<close> block,
  which logs it and throws it again.
\<close>

definition downloadQuizPdf :: "backend \<Rightarrow> jsval \<Rightarrow> jsval \<Rightarrow> world \<Rightarrow> jsval result" where
  "downloadQuizPdf be title quizData w =
     (case
        (case fetch be (downloadQuizPdf_request w title quizData) w of
           (Inl e, w1) \<Rightarrow> (Inl e, w1)
         | (Inr res, w1) \<Rightarrow>
             if \<not> ok res then (Inl (throw_detail (res_json_catch res) ''Failed to download PDF''), w1)
             else (Inr JUndefined, save_file (js_String title @ ''.pdf'') (blob res) w1))
      of
        (Inl error, w2) \<Rightarrow> (Inl error, console_error ''Download failed:'' error w2)
      | (Inr v, w2) \<Rightarrow> (Inr v, w2))"

section \<open>User history APIs\<close>

definition getUserSummaries_request :: "world \<Rightarrow> request" where
  "getUserSummaries_request w =
     \<lparr>http_method = ''GET'', url = API_BASE w @ ''/api/user/summaries'',
      headers = getAuthHeaders w, body = NoBody\<rparr>"

partial_function (option) getUserSummaries :: "backend \<Rightarrow> world \<Rightarrow> jsval result option" where
  "getUserSummaries be w =
     (case fetch be (getUserSummaries_request w) w of
        (Inl e, w1) \<Rightarrow> Some (Inl e, w1)
      | (Inr res, w1) \<Rightarrow>
          (case handleAuthError be res w1 of
             (Inl e, w2) \<Rightarrow> Some (Inl e, w2)
           | (Inr retry, w2) \<Rightarrow>
               if retry then getUserSummaries be w2
               else if \<not> ok res then
                 Some (Inl (throw_detail (res_json_catch res) ''Failed to fetch summaries''), w2)
               else Some (res_json res, w2)))"

definition getUserQuizzes_request :: "world \<Rightarrow> request" where
  "getUserQuizzes_request w =
     \<lparr>http_method = ''GET'', url = API_BASE w @ ''/api/user/quizzes'',
      headers = getAuthHeaders w, body = NoBody\<rparr>"

partial_function (option) getUserQuizzes :: "backend \<Rightarrow> world \<Rightarrow> jsval result option" where
  "getUserQuizzes be w =
     (case fetch be (getUserQuizzes_request w) w of
        (Inl e, w1) \<Rightarrow> Some (Inl e, w1)
      | (Inr res, w1) \<Rightarrow>
          (case handleAuthError be res w1 of
             (Inl e, w2) \<Rightarrow> Some (Inl e, w2)
           | (Inr retry, w2) \<Rightarrow>
               if retry then getUserQuizzes be w2
               else if \<not> ok res then
                 Some (Inl (throw_detail (res_json_catch res) ''Failed to fetch quizzes''), w2)
               else Some (res_json res, w2)))"

declare getUserProfile.simps [code] summarizeText.simps [code] summarizeYouTube.simps [code]
  summarizePDF.simps [code] generateQuiz.simps [code] getUserSummaries.simps [code]
  getUserQuizzes.simps [code]

section \<open>The protected operations as one family\<close>

datatype operation =
    GetUserProfile
  | SummarizeText jsval
  | SummarizeYouTube jsval
  | SummarizePDF jsval
  | GenerateQuiz jsval
  | GetUserSummaries
  | GetUserQuizzes

fun run :: "backend \<Rightarrow> operation \<Rightarrow> world \<Rightarrow> jsval result option" where
  "run be GetUserProfile w = getUserProfile be w"
| "run be (SummarizeText text) w = summarizeText be text w"
| "run be (SummarizeYouTube url') w = summarizeYouTube be url' w"
| "run be (SummarizePDF file) w = summarizePDF be file w"
| "run be (GenerateQuiz summary) w = generateQuiz be summary w"
| "run be GetUserSummaries w = getUserSummaries be w"
| "run be GetUserQuizzes w = getUserQuizzes be w"

text \<open>The request an operation sends from a given state of the storage.\<close>

fun request_of :: "operation \<Rightarrow> world \<Rightarrow> request" where
  "request_of GetUserProfile w = getUserProfile_request w"
| "request_of (SummarizeText text) w = summarizeText_request w text"
| "request_of (SummarizeYouTube url') w = summarizeYouTube_request w url'"
| "request_of (SummarizePDF file) w = summarizePDF_request w file"
| "request_of (GenerateQuiz summary) w = generateQuiz_request w summary"
| "request_of GetUserSummaries w = getUserSummaries_request w"
| "request_of GetUserQuizzes w = getUserQuizzes_request w"

text \<open>The message an operation falls back to when a failed response has no detail.\<close>

fun default_message :: "operation \<Rightarrow> response \<Rightarrow> string" where
  "default_message GetUserProfile res = ''Failed to fetch profile''"
| "default_message (SummarizeText text) res = ''Failed to summarize text''"
| "default_message (SummarizeYouTube url') res =
     ''HTTP '' @ show_nat (status res) @ '': Failed to summarize YouTube''"
| "default_message (SummarizePDF file) res = ''Failed to summarize PDF''"
| "default_message (GenerateQuiz summary) res = ''Failed to generate quiz''"
| "default_message GetUserSummaries res = ''Failed to fetch summaries''"
| "default_message GetUserQuizzes res = ''Failed to fetch quizzes''"

section \<open>Observations on a world\<close>

definition authorization :: "request \<Rightarrow> string option" where
  "authorization req = map_of (headers req) ''Authorization''"

text \<open>The storage mutations in a trace, in order.\<close>

primrec writes_of :: "event list \<Rightarrow> event list" where
  "writes_of [] = []"
| "writes_of (e # es) =
     (case e of
        SetItem k v \<Rightarrow> e # writes_of es
      | RemoveItem k \<Rightarrow> e # writes_of es
      | _ \<Rightarrow> writes_of es)"

text \<open>The number of requests sent to the refresh endpoint.\<close>

definition refresh_attempts :: "world \<Rightarrow> nat" where
  "refresh_attempts w =
     length (filter (\<lambda>r. url r = API_BASE w @ ''/api/auth/refresh'') (sent w))"

section \<open>All calls of the module\<close>

datatype api_call =
    Protected operation
  | RegisterUser jsval jsval jsval
  | SendOTP jsval jsval
  | VerifyOTP jsval jsval
  | DownloadQuizPdf jsval jsval

fun call :: "backend \<Rightarrow> api_call \<Rightarrow> world \<Rightarrow> jsval result option" where
  "call be (Protected op) w = run be op w"
| "call be (RegisterUser email phone fullName) w = Some (registerUser be email phone fullName w)"
| "call be (SendOTP phone email) w = Some (sendOTP be phone email w)"
| "call be (VerifyOTP email otp) w = Some (verifyOTP be email otp w)"
| "call be (DownloadQuizPdf title quizData) w = Some (downloadQuizPdf be title quizData w)"

fun first_request :: "api_call \<Rightarrow> world \<Rightarrow> request" where
  "first_request (Protected op) w = request_of op w"
| "first_request (RegisterUser email phone fullName) w = registerUser_request w email phone fullName"
| "first_request (SendOTP phone email) w = sendOTP_request w phone email"
| "first_request (VerifyOTP email otp) w = verifyOTP_request w email otp"
| "first_request (DownloadQuizPdf title quizData) w = downloadQuizPdf_request w title quizData"

text \<open>
  What one settled protected call may have done to the world it started in: it sent its
  request first, and it left the storage alone, or replaced the access token, or removed
  both tokens and failed with the session-expired error.
\<close>

definition frame :: "(world \<Rightarrow> request) \<Rightarrow> world \<Rightarrow> jsval result \<Rightarrow> bool" where
  "frame mk w y \<longleftrightarrow>
     (\<exists>es. trace (snd y) = trace w @ Fetch (mk w) # es) \<and>
     api_env (snd y) = api_env w \<and>
     (storage (snd y) = storage w \<or>
      (\<exists>tok. storage (snd y) = (storage w)(''access_token'' \<mapsto> tok)) \<or>
      (fst y = Inl session_expired \<and>
       storage (snd y) = (storage w)(''access_token'' := None, ''refresh_token'' := None)))"

section \<open>Scenarios\<close>

text \<open>A backend that answers the n-th request with the n-th entry of a script.\<close>

definition scripted :: "(exn + response) list \<Rightarrow> backend" where
  "scripted answers log req =
     (if length log < length answers then answers ! length log
      else Inl (Error ''Failed to fetch''))"

definition json_response :: "nat \<Rightarrow> jsval \<Rightarrow> exn + response" where
  "json_response code v = Inr \<lparr>status = code, parsed = Some v, blob = []\<rparr>"

definition signed_in :: world where
  "signed_in =
     \<lparr>api_env = None,
      storage = [''access_token'' \<mapsto> ''A1'', ''refresh_token'' \<mapsto> ''R1''],
      trace = []\<rparr>"

definition signed_out :: world where
  "signed_out = \<lparr>api_env = None, storage = Map.empty, trace = []\<rparr>"

text \<open>Two rounds of 401 and refresh before the profile arrives.\<close>

definition two_rounds :: backend where
  "two_rounds = scripted
     [json_response 401 (JObj [(''detail'', JStr ''Token expired'')]),
      json_response 200 (JObj [(''access_token'', JStr ''A2'')]),
      json_response 401 (JObj [(''detail'', JStr ''Token expired'')]),
      json_response 200 (JObj [(''access_token'', JStr ''A3'')]),
      json_response 200 (JObj [(''email'', JStr ''a@b.com'')])]"

definition round1_sent :: world where
  "round1_sent = snd (fetch two_rounds (request_of GetUserProfile signed_in) signed_in)"

definition round1_refreshed :: world where
  "round1_refreshed = snd (refreshAccessToken two_rounds round1_sent)"

definition round2_sent :: world where
  "round2_sent =
     snd (fetch two_rounds (request_of GetUserProfile round1_refreshed) round1_refreshed)"

text \<open>A 401, then a refresh that the backend rejects with 400.\<close>

definition refresh_rejected :: backend where
  "refresh_rejected = scripted
     [json_response 401 (JObj [(''detail'', JStr ''Token expired'')]),
      json_response 400 (JObj [(''detail'', JStr ''Invalid refresh token'')])]"

definition rejected_sent :: world where
  "rejected_sent =
     snd (fetch refresh_rejected (request_of (SummarizeText (JStr ''notes'')) signed_in) signed_in)"

text \<open>A 401, a successful refresh, and the retried request answered 200.\<close>

definition one_round :: backend where
  "one_round = scripted
     [json_response 401 (JObj [(''detail'', JStr ''Token expired'')]),
      json_response 200 (JObj [(''access_token'', JStr ''A2'')]),
      json_response 200 (JObj [(''summary'', JStr ''short'')])]"

definition one_round_sent :: world where
  "one_round_sent =
     snd (fetch one_round (request_of (SummarizeText (JStr ''notes'')) signed_in) signed_in)"

definition one_round_refreshed :: world where
  "one_round_refreshed = snd (refreshAccessToken one_round one_round_sent)"

definition one_round_done :: world where
  "one_round_done =
     snd (fetch one_round (request_of (SummarizeText (JStr ''notes'')) one_round_refreshed)
            one_round_refreshed)"

definition otp_accepted :: backend where
  "otp_accepted = scripted
     [json_response 200
        (JObj [(''access_token'', JStr ''A1''), (''refresh_token'', JStr ''R1''),
               (''user'', JObj [(''email'', JStr ''a@b.com'')])])]"

text \<open>A verification answered 200 with the JSON body \<^verbatim>\<open>null\<close>.\<close>

definition otp_null_body :: backend where
  "otp_null_body = scripted [json_response 200 JNull]"

definition otp_rejected :: backend where
  "otp_rejected = scripted [json_response 400 (JObj [(''detail'', JStr ''Invalid or expired OTP'')])]"

text \<open>A storage whose access token is the empty string.\<close>

definition blank_token :: world where
  "blank_token =
     \<lparr>api_env = None,
      storage = [''access_token'' \<mapsto> [], ''refresh_token'' \<mapsto> ''R1''],
      trace = []\<rparr>"

definition always_ok :: backend where
  "always_ok = scripted [json_response 200 (JObj [(''email'', JStr ''a@b.com'')])]"

definition server_error :: backend where
  "server_error = scripted [json_response 500 (JObj [(''detail'', JStr ''Internal error'')])]"

definition offline :: backend where
  "offline = scripted []"

text \<open>
  A backend that accepts every refresh and answers every other request with 401, and the
  worlds from which a refresh against it succeeds.
\<close>

definition always_unauthorized :: backend where
  "always_unauthorized log req =
     (if url req = ''http://localhost:8000/api/auth/refresh''
      then json_response 200 (JObj [(''access_token'', JStr ''A2'')])
      else json_response 401 (JObj [(''detail'', JStr ''Token expired'')]))"

definition can_refresh :: "world \<Rightarrow> bool" where
  "can_refresh w \<longleftrightarrow> api_env w = None \<and> truthy (getItem w ''refresh_token'')"

section \<open>Basic facts\<close>

lemma run_unfold:
  "run be op w =
     (case fetch be (request_of op w) w of
        (Inl e, w1) \<Rightarrow> Some (Inl e, w1)
      | (Inr res, w1) \<Rightarrow>
          (case handleAuthError be res w1 of
             (Inl e, w2) \<Rightarrow> Some (Inl e, w2)
           | (Inr retry, w2) \<Rightarrow>
               if retry then run be op w2
               else if \<not> ok res then
                 Some (Inl (throw_detail (res_json_catch res) (default_message op res)), w2)
               else Some (res_json res, w2)))"
proof (cases op)
  case GetUserProfile
  show ?thesis
    unfolding GetUserProfile run.simps request_of.simps default_message.simps
    by (rule getUserProfile.simps)
next
  case (SummarizeText x)
  show ?thesis
    unfolding SummarizeText run.simps request_of.simps default_message.simps
    by (rule summarizeText.simps)
next
  case (SummarizeYouTube x)
  show ?thesis
    unfolding SummarizeYouTube run.simps request_of.simps default_message.simps
    by (rule summarizeYouTube.simps)
next
  case (SummarizePDF x)
  show ?thesis
    unfolding SummarizePDF run.simps request_of.simps default_message.simps
    by (rule summarizePDF.simps)
next
  case (GenerateQuiz x)
  show ?thesis
    unfolding GenerateQuiz run.simps request_of.simps default_message.simps
    by (rule generateQuiz.simps)
next
  case GetUserSummaries
  show ?thesis
    unfolding GetUserSummaries run.simps request_of.simps default_message.simps
    by (rule getUserSummaries.simps)
next
  case GetUserQuizzes
  show ?thesis
    unfolding GetUserQuizzes run.simps request_of.simps default_message.simps
    by (rule getUserQuizzes.simps)
qed

lemma pairI: "fst p = a \<Longrightarrow> snd p = b \<Longrightarrow> p = (a, b)"
  by auto

lemma fetch_eq:
  "fetch be req w = (r, w1) \<longleftrightarrow> r = be (sent w) req \<and> w1 = w\<lparr>trace := trace w @ [Fetch req]\<rparr>"
  by (auto simp: fetch_def)

lemma sent_of_append: "sent_of (xs @ ys) = sent_of xs @ sent_of ys"
  by (induction xs) (auto split: event.splits)

lemma writes_of_append: "writes_of (xs @ ys) = writes_of xs @ writes_of ys"
  by (induction xs) (auto split: event.splits)

lemma handleAuthError_other:
  "status res \<noteq> 401 \<Longrightarrow> handleAuthError be res w = (Inr False, w)"
  by (simp add: handleAuthError_def)

lemma handleAuthError_401:
  "status res = 401 \<Longrightarrow>
   handleAuthError be res w =
     (case refreshAccessToken be w of
        (refreshed, w1) \<Rightarrow>
          if refreshed then (Inr True, w1)
          else (Inl session_expired,
                navigate ''/login'' (removeItem ''refresh_token'' (removeItem ''access_token'' w1))))"
  by (simp add: handleAuthError_def split: prod.splits)

lemma run_on_401:
  assumes "fetch be (request_of op w) w = (Inr res, w1)" and "status res = 401"
  shows "run be op w =
     (case refreshAccessToken be w1 of
        (refreshed, w2) \<Rightarrow>
          if refreshed then run be op w2
          else Some (Inl session_expired,
                navigate ''/login'' (removeItem ''refresh_token'' (removeItem ''access_token'' w2))))"
  using assms
  by (subst run_unfold) (simp add: handleAuthError_401 split: prod.splits)

lemma run_on_other:
  assumes "fetch be (request_of op w) w = (Inr res, w1)" and "status res \<noteq> 401"
  shows "run be op w =
     (if \<not> ok res then Some (Inl (throw_detail (res_json_catch res) (default_message op res)), w1)
      else Some (res_json res, w1))"
  using assms
  by (subst run_unfold) (simp add: handleAuthError_other)

lemma run_on_transport_error:
  assumes "fetch be (request_of op w) w = (Inl e, w1)"
  shows "run be op w = Some (Inl e, w1)"
  using assms by (subst run_unfold) simp

lemma refresh_cases:
  "refreshAccessToken be w = (b, w') \<Longrightarrow>
   (\<not> b \<and> storage w' = storage w \<and> writes_of (trace w') = writes_of (trace w)) \<or>
   (b \<and> (\<exists>tok. storage w' = (storage w)(''access_token'' \<mapsto> tok) \<and>
       trace w' = trace w @ [Fetch (refresh_request w (getItem w ''refresh_token'')),
                             SetItem ''access_token'' tok]))"
  by (auto simp: refreshAccessToken_def Let_def fetch_def setItem_def writes_of_append
      split: if_splits sum.splits prod.splits)

lemma refresh_fails_if:
  assumes "storage w ''refresh_token'' = None
     \<or> (\<exists>e. be (sent w) (refresh_request w (getItem w ''refresh_token'')) = Inl e)
     \<or> (\<exists>r. be (sent w) (refresh_request w (getItem w ''refresh_token'')) = Inr r \<and> \<not> ok r)"
  shows "\<exists>w'. refreshAccessToken be w = (False, w') \<and> storage w' = storage w
     \<and> (\<exists>es. trace w' = trace w @ es)"
  using assms
  by (auto simp: refreshAccessToken_def Let_def fetch_def getItem_def split: option.splits)

lemma refresh_success_iff:
  "refreshAccessToken be w = (True, w') \<longleftrightarrow>
     (\<exists>rt res data tok.
        storage w ''refresh_token'' = Some rt \<and> rt \<noteq> [] \<and>
        be (sent w) (refresh_request w (JStr rt)) = Inr res \<and> ok res \<and>
        parsed res = Some data \<and> get_prop data ''access_token'' = Inr tok \<and>
        w' = setItem ''access_token'' tok (w\<lparr>trace := trace w @ [Fetch (refresh_request w (JStr rt))]\<rparr>))"
  by (auto simp: refreshAccessToken_def Let_def fetch_def getItem_def res_json_def
      split: option.splits sum.splits if_splits)

lemma authorization_request_of:
  "authorization (request_of op w) =
     (case storage w ''access_token'' of
        None \<Rightarrow> None
      | Some t \<Rightarrow> if t = [] then None else Some (''Bearer '' @ t))"
  by (cases op)
     (simp_all add: authorization_def getUserProfile_request_def summarizeText_request_def
        summarizeYouTube_request_def summarizePDF_request_def generateQuiz_request_def
        getUserSummaries_request_def getUserQuizzes_request_def getAuthHeaders_def getItem_def
        Let_def split: option.splits)

lemma verifyOTP_failure_writes_nothing:
  "fst (verifyOTP be email otp w) = Inl e \<Longrightarrow>
   storage (snd (verifyOTP be email otp w)) = storage w \<and>
   writes_of (trace (snd (verifyOTP be email otp w))) = writes_of (trace w)"
  apply (cases "be (sent w) (verifyOTP_request w email otp)")
   apply (simp add: verifyOTP_def fetch_def writes_of_append)
  subgoal for res
    apply (cases "parsed res")
     apply (simp add: verifyOTP_def fetch_def writes_of_append res_json_def)
    subgoal for data
      by (cases data)
         (auto simp: verifyOTP_def fetch_def writes_of_append res_json_def Let_def)
    done
  done

lemma verifyOTP_success_writes_both:
  assumes "fst (verifyOTP be email otp w) = Inr d"
  shows "\<exists>a r. storage (snd (verifyOTP be email otp w)) =
            (storage w)(''access_token'' \<mapsto> a, ''refresh_token'' \<mapsto> r) \<and>
          writes_of (trace (snd (verifyOTP be email otp w))) =
            writes_of (trace w) @ [SetItem ''access_token'' a, SetItem ''refresh_token'' r]"
proof (cases "be (sent w) (verifyOTP_request w email otp)")
  case (Inl e)
  with assms show ?thesis by (simp add: verifyOTP_def fetch_def)
next
  case (Inr res)
  note d = assms
  show ?thesis
  proof (cases "parsed res")
    case None
    with Inr d show ?thesis
      by (simp add: verifyOTP_def fetch_def res_json_def split: if_splits)
  next
    case (Some data)
    with Inr d show ?thesis
      by (cases data)
         (auto simp: verifyOTP_def fetch_def writes_of_append res_json_def Let_def setItem_def
            split: if_splits)
  qed
qed

subsection \<open>What a settled call leaves behind\<close>

lemma refresh_world:
  "refreshAccessToken be w = (b, w') \<Longrightarrow>
   api_env w' = api_env w \<and> (\<exists>es. trace w' = trace w @ es) \<and>
   (if b then \<exists>tok. storage w' = (storage w)(''access_token'' \<mapsto> tok) else storage w' = storage w)"
  by (auto simp: refreshAccessToken_def Let_def fetch_def setItem_def
      split: if_splits sum.splits prod.splits)

lemma step_frame:
  assumes IH: "\<And>w y. self w = Some y \<Longrightarrow> frame mk w y"
    and body: "(case fetch be (mk w) w of
        (Inl e, w1) \<Rightarrow> Some (Inl e, w1)
      | (Inr res, w1) \<Rightarrow>
          (case handleAuthError be res w1 of
             (Inl e, w2) \<Rightarrow> Some (Inl e, w2)
           | (Inr retry, w2) \<Rightarrow>
               if retry then self w2
               else if \<not> ok res then Some (Inl (msg res), w2)
               else Some (res_json res, w2))) = Some y"
  shows "frame mk w y"
proof (cases "be (sent w) (mk w)")
  case (Inl e)
  with body show ?thesis by (auto simp: fetch_def frame_def)
next
  case (Inr res)
  let ?w1 = "w\<lparr>trace := trace w @ [Fetch (mk w)]\<rparr>"
  show ?thesis
  proof (cases "status res = 401")
    case False
    with Inr body show ?thesis
      by (auto simp: fetch_def frame_def handleAuthError_other split: if_splits)
  next
    case True
    obtain b w2 where r: "refreshAccessToken be ?w1 = (b, w2)"
      by (cases "refreshAccessToken be ?w1")
    from refresh_world [OF r]
    have env: "api_env w2 = api_env w" and tr: "\<exists>es. trace w2 = trace w @ Fetch (mk w) # es"
      and st: "if b then \<exists>tok. storage w2 = (storage w)(''access_token'' \<mapsto> tok)
               else storage w2 = storage w"
      by auto
    show ?thesis
    proof (cases b)
      case False
      with Inr True r body st tr env show ?thesis
        by (auto simp: fetch_def frame_def handleAuthError_401 navigate_def removeItem_def)
    next
      case b: True
      with Inr True r body have "self w2 = Some y"
        by (simp add: fetch_def handleAuthError_401)
      from IH [OF this] have f2: "frame mk w2 y" .
      from st b obtain tok where st2: "storage w2 = (storage w)(''access_token'' \<mapsto> tok)"
        by auto
      from tr obtain es where tr2: "trace w2 = trace w @ Fetch (mk w) # es" by auto
      from f2 st2 tr2 env show ?thesis
        unfolding frame_def by auto
    qed
  qed
qed

lemma getUserProfile_frame:
  assumes "getUserProfile be w = Some y"
  shows "frame getUserProfile_request w y"
proof (rule getUserProfile.raw_induct
    [where P = "\<lambda>be w y. frame getUserProfile_request w y", OF _ assms], goal_cases)
  case (1 self be w y)
  show ?case
    by (rule step_frame [where self = "self be" and be = be, OF 1(1) 1(2)])
qed

lemma summarizeText_frame:
  assumes "summarizeText be x w = Some y"
  shows "frame (\<lambda>w. summarizeText_request w x) w y"
proof (rule summarizeText.raw_induct
    [where P = "\<lambda>be x w y. frame (\<lambda>w. summarizeText_request w x) w y", OF _ assms], goal_cases)
  case (1 self be x w y)
  show ?case
    by (rule step_frame [where self = "self be x" and be = be
          and mk = "\<lambda>w. summarizeText_request w x", OF 1(1) 1(2)])
qed

lemma summarizeYouTube_frame:
  assumes "summarizeYouTube be x w = Some y"
  shows "frame (\<lambda>w. summarizeYouTube_request w x) w y"
proof (rule summarizeYouTube.raw_induct
    [where P = "\<lambda>be x w y. frame (\<lambda>w. summarizeYouTube_request w x) w y", OF _ assms], goal_cases)
  case (1 self be x w y)
  show ?case
    by (rule step_frame [where self = "self be x" and be = be
          and mk = "\<lambda>w. summarizeYouTube_request w x", OF 1(1) 1(2)])
qed

lemma summarizePDF_frame:
  assumes "summarizePDF be x w = Some y"
  shows "frame (\<lambda>w. summarizePDF_request w x) w y"
proof (rule summarizePDF.raw_induct
    [where P = "\<lambda>be x w y. frame (\<lambda>w. summarizePDF_request w x) w y", OF _ assms], goal_cases)
  case (1 self be x w y)
  show ?case
    by (rule step_frame [where self = "self be x" and be = be
          and mk = "\<lambda>w. summarizePDF_request w x", OF 1(1) 1(2)])
qed

lemma generateQuiz_frame:
  assumes "generateQuiz be x w = Some y"
  shows "frame (\<lambda>w. generateQuiz_request w x) w y"
proof (rule generateQuiz.raw_induct
    [where P = "\<lambda>be x w y. frame (\<lambda>w. generateQuiz_request w x) w y", OF _ assms], goal_cases)
  case (1 self be x w y)
  show ?case
    by (rule step_frame [where self = "self be x" and be = be
          and mk = "\<lambda>w. generateQuiz_request w x", OF 1(1) 1(2)])
qed

lemma getUserSummaries_frame:
  assumes "getUserSummaries be w = Some y"
  shows "frame getUserSummaries_request w y"
proof (rule getUserSummaries.raw_induct
    [where P = "\<lambda>be w y. frame getUserSummaries_request w y", OF _ assms], goal_cases)
  case (1 self be w y)
  show ?case
    by (rule step_frame [where self = "self be" and be = be, OF 1(1) 1(2)])
qed

lemma getUserQuizzes_frame:
  assumes "getUserQuizzes be w = Some y"
  shows "frame getUserQuizzes_request w y"
proof (rule getUserQuizzes.raw_induct
    [where P = "\<lambda>be w y. frame getUserQuizzes_request w y", OF _ assms], goal_cases)
  case (1 self be w y)
  show ?case
    by (rule step_frame [where self = "self be" and be = be, OF 1(1) 1(2)])
qed

lemma run_frame:
  assumes "run be op w = Some y"
  shows "frame (request_of op) w y"
proof (cases op)
  case GetUserProfile
  with assms getUserProfile_frame [of be w y] show ?thesis by (simp add: frame_def)
next
  case (SummarizeText x)
  with assms summarizeText_frame [of be x w y] show ?thesis by (simp add: frame_def)
next
  case (SummarizeYouTube x)
  with assms summarizeYouTube_frame [of be x w y] show ?thesis by (simp add: frame_def)
next
  case (SummarizePDF x)
  with assms summarizePDF_frame [of be x w y] show ?thesis by (simp add: frame_def)
next
  case (GenerateQuiz x)
  with assms generateQuiz_frame [of be x w y] show ?thesis by (simp add: frame_def)
next
  case GetUserSummaries
  with assms getUserSummaries_frame [of be w y] show ?thesis by (simp add: frame_def)
next
  case GetUserQuizzes
  with assms getUserQuizzes_frame [of be w y] show ?thesis by (simp add: frame_def)
qed

lemma unprotected_storage:
  "storage (snd (registerUser be email phone fullName w)) = storage w"
  "storage (snd (sendOTP be phone email w)) = storage w"
  "storage (snd (downloadQuizPdf be title quizData w)) = storage w"
  by (auto simp: registerUser_def sendOTP_def downloadQuizPdf_def fetch_def res_json_def
      console_error_def save_file_def split: sum.splits option.splits)

lemma verifyOTP_dom:
  "dom (storage w) \<subseteq> dom (storage (snd (verifyOTP be email otp w)))"
  by (auto simp: verifyOTP_def fetch_def res_json_def setItem_def Let_def
      split: sum.splits option.splits)

lemma call_keeps_tokens:
  assumes "call be c w = Some (r, w')"
  shows "dom (storage w) \<subseteq> dom (storage w') \<or>
     ((\<exists>op. c = Protected op) \<and> r = Inl session_expired \<and>
      storage w' = (storage w)(''access_token'' := None, ''refresh_token'' := None))"
proof (cases c)
  case (Protected op)
  with assms have "frame (request_of op) w (r, w')" by (simp add: run_frame)
  then have "storage w' = storage w \<or>
      (\<exists>tok. storage w' = (storage w)(''access_token'' \<mapsto> tok)) \<or>
      (r = Inl session_expired \<and>
       storage w' = (storage w)(''access_token'' := None, ''refresh_token'' := None))"
    by (simp add: frame_def)
  then show ?thesis
  proof (elim disjE exE)
    assume "storage w' = storage w"
    then show ?thesis by simp
  next
    fix tok assume "storage w' = (storage w)(''access_token'' \<mapsto> tok)"
    then show ?thesis by auto
  next
    assume "r = Inl session_expired \<and>
       storage w' = (storage w)(''access_token'' := None, ''refresh_token'' := None)"
    with Protected show ?thesis by simp
  qed
next
  case (RegisterUser a b c)
  with assms unprotected_storage(1) [of be a b c w] show ?thesis by auto
next
  case (SendOTP a b)
  with assms unprotected_storage(2) [of be a b w] show ?thesis by auto
next
  case (VerifyOTP a b)
  with assms verifyOTP_dom [of w be a b] show ?thesis by auto
next
  case (DownloadQuizPdf a b)
  with assms unprotected_storage(3) [of be a b w] show ?thesis by auto
qed

lemma call_other_failure:
  assumes "fetch be (first_request c w) w = (Inr res, w1)" and "\<not> ok res" and "status res \<noteq> 401"
  shows "\<exists>e w'. call be c w = Some (Inl e, w') \<and> storage w' = storage w \<and>
           writes_of (trace w') = writes_of (trace w)"
proof -
  from assms(1) have w1: "w1 = w\<lparr>trace := trace w @ [Fetch (first_request c w)]\<rparr>"
    and r: "be (sent w) (first_request c w) = Inr res"
    by (simp_all add: fetch_eq)
  show ?thesis
  proof (cases c)
    case (Protected op)
    with assms have "run be op w =
        Some (Inl (throw_detail (res_json_catch res) (default_message op res)), w1)"
      by (simp add: run_on_other)
    with Protected w1 show ?thesis by (simp add: writes_of_append)
  next
    case (RegisterUser a b c)
    with r assms(2) show ?thesis
      by (auto simp: registerUser_def fetch_def res_json_def writes_of_append
          split: option.splits)
  next
    case (SendOTP a b)
    with r assms(2) show ?thesis
      by (auto simp: sendOTP_def fetch_def res_json_def writes_of_append split: option.splits)
  next
    case (VerifyOTP a b)
    with r assms(2) show ?thesis
      by (auto simp: verifyOTP_def fetch_def res_json_def writes_of_append split: option.splits)
  next
    case (DownloadQuizPdf a b)
    with r assms(2) show ?thesis
      by (auto simp: downloadQuizPdf_def fetch_def console_error_def writes_of_append)
  qed
qed

lemma refresh_never_removes:
  "dom (storage w) \<subseteq> dom (storage (snd (refreshAccessToken be w)))"
  "\<not> fst (refreshAccessToken be w) \<Longrightarrow>
     storage (snd (refreshAccessToken be w)) = storage w \<and>
     writes_of (trace (snd (refreshAccessToken be w))) = writes_of (trace w)"
proof -
  obtain b w' where r: "refreshAccessToken be w = (b, w')"
    by (cases "refreshAccessToken be w")
  from refresh_cases [OF r] r
  show "dom (storage w) \<subseteq> dom (storage (snd (refreshAccessToken be w)))"
    by auto
  from refresh_cases [OF r] r
  show "\<not> fst (refreshAccessToken be w) \<Longrightarrow>
     storage (snd (refreshAccessToken be w)) = storage w \<and>
     writes_of (trace (snd (refreshAccessToken be w))) = writes_of (trace w)"
    by auto
qed

subsection \<open>A call that never settles\<close>

lemma step_never:
  assumes IH: "\<And>w y. self w = Some y \<Longrightarrow> be = always_unauthorized \<longrightarrow> \<not> can_refresh w"
    and url: "api_env w = None \<Longrightarrow> url (mk w) \<noteq> ''http://localhost:8000/api/auth/refresh''"
    and body: "(case fetch be (mk w) w of
        (Inl e, w1) \<Rightarrow> Some (Inl e, w1)
      | (Inr res, w1) \<Rightarrow>
          (case handleAuthError be res w1 of
             (Inl e, w2) \<Rightarrow> Some (Inl e, w2)
           | (Inr retry, w2) \<Rightarrow>
               if retry then self w2
               else if \<not> ok res then Some (Inl (msg res), w2)
               else Some (res_json res, w2))) = Some y"
  shows "be = always_unauthorized \<longrightarrow> \<not> can_refresh w"
proof (intro impI notI)
  assume be: "be = always_unauthorized" and c: "can_refresh w"
  let ?w1 = "w\<lparr>trace := trace w @ [Fetch (mk w)]\<rparr>"
  from c obtain rt where rt: "storage w ''refresh_token'' = Some rt" "rt \<noteq> []" "api_env w = None"
    by (auto simp: can_refresh_def getItem_def split: option.splits)
  let ?w2 = "setItem ''access_token'' (JStr ''A2'')
      (?w1\<lparr>trace := trace ?w1 @ [Fetch (refresh_request ?w1 (JStr rt))]\<rparr>)"
  have "refreshAccessToken always_unauthorized ?w1 = (True, ?w2)"
    using rt
    by (simp add: refreshAccessToken_def getItem_def fetch_def always_unauthorized_def
        refresh_request_def API_BASE_def json_response_def ok_def res_json_def)
  moreover from body have "(case fetch always_unauthorized (mk w) w of
        (Inl e, w1) \<Rightarrow> Some (Inl e, w1)
      | (Inr res, w1) \<Rightarrow>
          (case handleAuthError always_unauthorized res w1 of
             (Inl e, w2) \<Rightarrow> Some (Inl e, w2)
           | (Inr retry, w2) \<Rightarrow>
               if retry then self w2
               else if \<not> ok res then Some (Inl (msg res), w2)
               else Some (res_json res, w2))) = Some y"
    unfolding be .
  ultimately have "self ?w2 = Some y"
    using url [OF rt(3)]
    by (simp add: fetch_def always_unauthorized_def json_response_def handleAuthError_401)
  from IH [OF this] be have "\<not> can_refresh ?w2" by simp
  moreover have "can_refresh ?w2"
    using rt by (simp add: can_refresh_def getItem_def setItem_def)
  ultimately show False by contradiction
qed

lemma getUserProfile_never:
  assumes "getUserProfile be w = Some y"
  shows "be = always_unauthorized \<longrightarrow> \<not> can_refresh w"
proof (rule getUserProfile.raw_induct
    [where P = "\<lambda>be w y. be = always_unauthorized \<longrightarrow> \<not> can_refresh w", OF _ assms],
    goal_cases)
  case (1 self be w y)
  show ?case
    by (rule step_never [where self = "self be" and mk = getUserProfile_request,
          OF 1(1) _ 1(2)])
       (simp_all add: getUserProfile_request_def API_BASE_def)
qed

lemma summarizeText_never:
  assumes "summarizeText be x w = Some y"
  shows "be = always_unauthorized \<longrightarrow> \<not> can_refresh w"
proof (rule summarizeText.raw_induct
    [where P = "\<lambda>be x w y. be = always_unauthorized \<longrightarrow> \<not> can_refresh w", OF _ assms],
    goal_cases)
  case (1 self be x w y)
  show ?case
    by (rule step_never [where self = "self be x" and mk = "\<lambda>w. summarizeText_request w x",
          OF 1(1) _ 1(2)])
       (simp_all add: summarizeText_request_def API_BASE_def)
qed

lemma summarizeYouTube_never:
  assumes "summarizeYouTube be x w = Some y"
  shows "be = always_unauthorized \<longrightarrow> \<not> can_refresh w"
proof (rule summarizeYouTube.raw_induct
    [where P = "\<lambda>be x w y. be = always_unauthorized \<longrightarrow> \<not> can_refresh w", OF _ assms],
    goal_cases)
  case (1 self be x w y)
  show ?case
    by (rule step_never [where self = "self be x" and mk = "\<lambda>w. summarizeYouTube_request w x",
          OF 1(1) _ 1(2)])
       (simp_all add: summarizeYouTube_request_def API_BASE_def Let_def)
qed

lemma summarizePDF_never:
  assumes "summarizePDF be x w = Some y"
  shows "be = always_unauthorized \<longrightarrow> \<not> can_refresh w"
proof (rule summarizePDF.raw_induct
    [where P = "\<lambda>be x w y. be = always_unauthorized \<longrightarrow> \<not> can_refresh w", OF _ assms],
    goal_cases)
  case (1 self be x w y)
  show ?case
    by (rule step_never [where self = "self be x" and mk = "\<lambda>w. summarizePDF_request w x",
          OF 1(1) _ 1(2)])
       (simp_all add: summarizePDF_request_def API_BASE_def Let_def)
qed

lemma generateQuiz_never:
  assumes "generateQuiz be x w = Some y"
  shows "be = always_unauthorized \<longrightarrow> \<not> can_refresh w"
proof (rule generateQuiz.raw_induct
    [where P = "\<lambda>be x w y. be = always_unauthorized \<longrightarrow> \<not> can_refresh w", OF _ assms],
    goal_cases)
  case (1 self be x w y)
  show ?case
    by (rule step_never [where self = "self be x" and mk = "\<lambda>w. generateQuiz_request w x",
          OF 1(1) _ 1(2)])
       (simp_all add: generateQuiz_request_def API_BASE_def Let_def)
qed

lemma getUserSummaries_never:
  assumes "getUserSummaries be w = Some y"
  shows "be = always_unauthorized \<longrightarrow> \<not> can_refresh w"
proof (rule getUserSummaries.raw_induct
    [where P = "\<lambda>be w y. be = always_unauthorized \<longrightarrow> \<not> can_refresh w", OF _ assms],
    goal_cases)
  case (1 self be w y)
  show ?case
    by (rule step_never [where self = "self be" and mk = getUserSummaries_request,
          OF 1(1) _ 1(2)])
       (simp_all add: getUserSummaries_request_def API_BASE_def)
qed

lemma getUserQuizzes_never:
  assumes "getUserQuizzes be w = Some y"
  shows "be = always_unauthorized \<longrightarrow> \<not> can_refresh w"
proof (rule getUserQuizzes.raw_induct
    [where P = "\<lambda>be w y. be = always_unauthorized \<longrightarrow> \<not> can_refresh w", OF _ assms],
    goal_cases)
  case (1 self be w y)
  show ?case
    by (rule step_never [where self = "self be" and mk = getUserQuizzes_request,
          OF 1(1) _ 1(2)])
       (simp_all add: getUserQuizzes_request_def API_BASE_def)
qed

text \<open>
  Against \<open>always_unauthorized\<close> no protected call settles: each 401 is followed by a
  successful refresh and a new call, without end.
\<close>

lemma run_never_settles:
  assumes "can_refresh w"
  shows "run always_unauthorized op w = None"
proof (cases "run always_unauthorized op w")
  case None
  then show ?thesis .
next
  case (Some y)
  have "\<not> can_refresh w"
  proof (cases op)
    case GetUserProfile
    with Some getUserProfile_never [of always_unauthorized w y] show ?thesis by simp
  next
    case (SummarizeText x)
    with Some summarizeText_never [of always_unauthorized x w y] show ?thesis by simp
  next
    case (SummarizeYouTube x)
    with Some summarizeYouTube_never [of always_unauthorized x w y] show ?thesis by simp
  next
    case (SummarizePDF x)
    with Some summarizePDF_never [of always_unauthorized x w y] show ?thesis by simp
  next
    case (GenerateQuiz x)
    with Some generateQuiz_never [of always_unauthorized x w y] show ?thesis by simp
  next
    case GetUserSummaries
    with Some getUserSummaries_never [of always_unauthorized w y] show ?thesis by simp
  next
    case GetUserQuizzes
    with Some getUserQuizzes_never [of always_unauthorized w y] show ?thesis by simp
  qed
  with assms show ?thesis by contradiction
qed

section \<open>Properties\<close>

text \<open>
  C1. The specification says that at most one refresh attempt is made per original call,
  and that a second 401 after a successful refresh fails the operation without a second
  refresh attempt. The code does otherwise. In the scenario \<open>two_rounds\<close> the retried
  request is answered 401 again; \<open>getUserProfile\<close> then refreshes a second time, retries
  again and resolves, after five requests in all.
\<close>

theorem second_refresh_counterexample:
  "map_option fst (run two_rounds GetUserProfile signed_in) =
     Some (Inr (JObj [(''email'', JStr ''a@b.com'')])) \<and>
   map_option (refresh_attempts \<circ> snd) (run two_rounds GetUserProfile signed_in) = Some 2 \<and>
   map_option (map url \<circ> sent \<circ> snd) (run two_rounds GetUserProfile signed_in) =
     Some [''http://localhost:8000/api/user/profile'', ''http://localhost:8000/api/auth/refresh'',
           ''http://localhost:8000/api/user/profile'', ''http://localhost:8000/api/auth/refresh'',
           ''http://localhost:8000/api/user/profile'']"
  by code_simp

text \<open>
  C1, as the code has it. Every 401 is followed by a refresh attempt, also the 401 that
  answers the retried request: after a first 401, a successful refresh and a second 401,
  the operation attempts a second refresh; it fails with the session-expired error only if
  that refresh fails, and otherwise calls itself again.
\<close>

theorem second_401_refreshes_again:
  assumes "fetch be (request_of op w) w = (Inr res1, w1)" and "status res1 = 401"
    and "refreshAccessToken be w1 = (True, w2)"
    and "fetch be (request_of op w2) w2 = (Inr res2, w3)" and "status res2 = 401"
  shows "run be op w =
     (case refreshAccessToken be w3 of
        (refreshed, w4) \<Rightarrow>
          if refreshed then run be op w4
          else Some (Inl session_expired,
                navigate ''/login'' (removeItem ''refresh_token'' (removeItem ''access_token'' w4))))"
proof -
  have "run be op w = run be op w2"
    using run_on_401 [OF assms(1,2)] assms(3) by simp
  then show ?thesis
    using run_on_401 [OF assms(4,5)] by simp
qed

theorem second_401_refreshes_again_witness:
  "fetch two_rounds (request_of GetUserProfile signed_in) signed_in =
     (json_response 401 (JObj [(''detail'', JStr ''Token expired'')]), round1_sent) \<and>
   refreshAccessToken two_rounds round1_sent = (True, round1_refreshed) \<and>
   fetch two_rounds (request_of GetUserProfile round1_refreshed) round1_refreshed =
     (json_response 401 (JObj [(''detail'', JStr ''Token expired'')]), round2_sent) \<and>
   run two_rounds GetUserProfile signed_in =
     (case refreshAccessToken two_rounds round2_sent of
        (refreshed, w4) \<Rightarrow>
          if refreshed then run two_rounds GetUserProfile w4
          else Some (Inl session_expired,
                navigate ''/login'' (removeItem ''refresh_token'' (removeItem ''access_token'' w4))))"
proof -
  let ?r = "\<lparr>status = 401, parsed = Some (JObj [(''detail'', JStr ''Token expired'')]), blob = []\<rparr>"
  have h1: "fetch two_rounds (request_of GetUserProfile signed_in) signed_in = (Inr ?r, round1_sent)"
    by (rule pairI) (code_simp, simp add: round1_sent_def)
  have h2: "status ?r = 401" by simp
  have h3: "refreshAccessToken two_rounds round1_sent = (True, round1_refreshed)"
    by (rule pairI) (code_simp, simp add: round1_refreshed_def)
  have h4: "fetch two_rounds (request_of GetUserProfile round1_refreshed) round1_refreshed =
      (Inr ?r, round2_sent)"
    by (rule pairI) (code_simp, simp add: round2_sent_def)
  show ?thesis
    using second_401_refreshes_again [OF h1 h2 h3 h4 h2] h1 h3 h4
    by (simp add: json_response_def)
qed

text \<open>
  C2. A protected operation whose response is 401 and whose refresh attempt fails, because
  no refresh token is stored, or the transport fails, or the refresh response is not 2xx,
  settles with the session-expired error, and both tokens are gone from the storage. The
  last thing it does is to send the browser to the login page.
\<close>

theorem failed_refresh_expires_session:
  assumes "fetch be (request_of op w) w = (Inr res, w1)" and "status res = 401"
    and "storage w ''refresh_token'' = None
     \<or> (\<exists>e. be (sent w1) (refresh_request w1 (getItem w1 ''refresh_token'')) = Inl e)
     \<or> (\<exists>r. be (sent w1) (refresh_request w1 (getItem w1 ''refresh_token'')) = Inr r \<and> \<not> ok r)"
  shows "\<exists>w'. run be op w = Some (Inl session_expired, w') \<and>
           storage w' = (storage w)(''access_token'' := None, ''refresh_token'' := None) \<and>
           (\<exists>es. trace w' = trace w @ es @ [Navigate ''/login''])"
proof -
  from assms(1) have w1: "w1 = w\<lparr>trace := trace w @ [Fetch (request_of op w)]\<rparr>"
    by (simp add: fetch_eq)
  then have st1: "storage w1 = storage w" by simp
  with assms(3) have "storage w1 ''refresh_token'' = None
     \<or> (\<exists>e. be (sent w1) (refresh_request w1 (getItem w1 ''refresh_token'')) = Inl e)
     \<or> (\<exists>r. be (sent w1) (refresh_request w1 (getItem w1 ''refresh_token'')) = Inr r \<and> \<not> ok r)"
    by simp
  from refresh_fails_if [of w1 be, OF this] obtain w2 es
    where r: "refreshAccessToken be w1 = (False, w2)" and st2: "storage w2 = storage w1"
      and tr2: "trace w2 = trace w1 @ es"
    by blast
  let ?w' = "navigate ''/login'' (removeItem ''refresh_token'' (removeItem ''access_token'' w2))"
  have "run be op w = Some (Inl session_expired, ?w')"
    using run_on_401 [OF assms(1,2)] r by simp
  moreover have "storage ?w' = (storage w)(''access_token'' := None, ''refresh_token'' := None)"
    using st1 st2 by (simp add: navigate_def removeItem_def)
  moreover have "\<exists>es. trace ?w' = trace w @ es @ [Navigate ''/login'']"
    using tr2 w1 by (simp add: navigate_def removeItem_def)
  ultimately show ?thesis by blast
qed

theorem failed_refresh_expires_session_witness:
  "fetch refresh_rejected (request_of (SummarizeText (JStr ''notes'')) signed_in) signed_in =
     (json_response 401 (JObj [(''detail'', JStr ''Token expired'')]), rejected_sent) \<and>
   refresh_rejected (sent rejected_sent)
       (refresh_request rejected_sent (getItem rejected_sent ''refresh_token'')) =
     json_response 400 (JObj [(''detail'', JStr ''Invalid refresh token'')]) \<and>
   (\<exists>w'. run refresh_rejected (SummarizeText (JStr ''notes'')) signed_in =
            Some (Inl session_expired, w') \<and>
          storage w' = (storage signed_in)(''access_token'' := None, ''refresh_token'' := None) \<and>
          (\<exists>es. trace w' = trace signed_in @ es @ [Navigate ''/login'']))"
proof -
  let ?r1 = "\<lparr>status = 401, parsed = Some (JObj [(''detail'', JStr ''Token expired'')]), blob = []\<rparr>"
  let ?r2 = "\<lparr>status = 400, parsed = Some (JObj [(''detail'', JStr ''Invalid refresh token'')]),
             blob = []\<rparr>"
  have h1: "fetch refresh_rejected (request_of (SummarizeText (JStr ''notes'')) signed_in) signed_in =
      (Inr ?r1, rejected_sent)"
    by (rule pairI) (code_simp, simp add: rejected_sent_def)
  have h2: "status ?r1 = 401" by simp
  have h3: "refresh_rejected (sent rejected_sent)
       (refresh_request rejected_sent (getItem rejected_sent ''refresh_token'')) = Inr ?r2"
    by code_simp
  have h4: "\<not> ok ?r2" by (simp add: ok_def)
  from h3 h4 have h5: "storage signed_in ''refresh_token'' = None
     \<or> (\<exists>e. refresh_rejected (sent rejected_sent)
            (refresh_request rejected_sent (getItem rejected_sent ''refresh_token'')) = Inl e)
     \<or> (\<exists>r. refresh_rejected (sent rejected_sent)
            (refresh_request rejected_sent (getItem rejected_sent ''refresh_token'')) = Inr r \<and> \<not> ok r)"
    by blast
  show ?thesis
    using failed_refresh_expires_session [OF h1 h2 h5] h1 h3
    by (simp add: json_response_def)
qed

text \<open>
  C3. With a refresh token stored, a first response of 401, a refresh that succeeds and a
  retried request answered 200 with a JSON body, the operation resolves with that body.
  The only storage mutation of the whole call is one \<open>setItem\<close> of the access token, to
  the value the refresh returned; the refresh token is as before; exactly three requests
  are sent, and the retried one is built from the storage that holds the new token.
\<close>

theorem refresh_then_retry_succeeds:
  assumes "storage w ''refresh_token'' = Some rt"
    and "fetch be (request_of op w) w = (Inr res1, w1)" and "status res1 = 401"
    and "refreshAccessToken be w1 = (True, w2)"
    and "fetch be (request_of op w2) w2 = (Inr res2, w3)" and "status res2 = 200"
    and "parsed res2 = Some v"
  shows "run be op w = Some (Inr v, w3) \<and>
         (\<exists>tok. storage w2 ''access_token'' = Some tok \<and>
                storage w3 = (storage w)(''access_token'' \<mapsto> tok) \<and>
                writes_of (trace w3) = writes_of (trace w) @ [SetItem ''access_token'' tok] \<and>
                authorization (request_of op w2) =
                  (if tok = [] then None else Some (''Bearer '' @ tok))) \<and>
         storage w3 ''refresh_token'' = Some rt \<and>
         sent w3 = sent w @ [request_of op w, refresh_request w1 (JStr rt), request_of op w2]"
proof -
  from assms(2) have w1: "w1 = w\<lparr>trace := trace w @ [Fetch (request_of op w)]\<rparr>"
    by (simp add: fetch_eq)
  from assms(5) have w3: "w3 = w2\<lparr>trace := trace w2 @ [Fetch (request_of op w2)]\<rparr>"
    by (simp add: fetch_eq)
  from refresh_cases [OF assms(4)] obtain tok
    where st2: "storage w2 = (storage w1)(''access_token'' \<mapsto> tok)"
      and tr2: "trace w2 = trace w1 @ [Fetch (refresh_request w1 (getItem w1 ''refresh_token'')),
                             SetItem ''access_token'' tok]"
    by auto
  have rt: "getItem w1 ''refresh_token'' = JStr rt"
    using assms(1) w1 by (simp add: getItem_def)
  have "run be op w = run be op w2"
    using run_on_401 [OF assms(2,3)] assms(4) by simp
  also have "\<dots> = Some (Inr v, w3)"
    using run_on_other [OF assms(5)] assms(6,7) by (simp add: ok_def res_json_def)
  finally have 1: "run be op w = Some (Inr v, w3)" .
  have 2: "storage w2 ''access_token'' = Some tok" using st2 by simp
  have 3: "storage w3 = (storage w)(''access_token'' \<mapsto> tok)" using st2 w1 w3 by simp
  have 4: "writes_of (trace w3) = writes_of (trace w) @ [SetItem ''access_token'' tok]"
    using tr2 w1 w3 by (simp add: writes_of_append)
  have 5: "storage w3 ''refresh_token'' = Some rt" using 3 assms(1) by simp
  have 6: "sent w3 = sent w @ [request_of op w, refresh_request w1 (JStr rt), request_of op w2]"
    using tr2 w1 w3 rt by (simp add: sent_def sent_of_append)
  have 7: "authorization (request_of op w2) = (if tok = [] then None else Some (''Bearer '' @ tok))"
    using 2 by (simp add: authorization_request_of)
  from 1 2 3 4 5 6 7 show ?thesis by blast
qed

theorem refresh_then_retry_succeeds_witness:
  "storage signed_in ''refresh_token'' = Some ''R1'' \<and>
   fetch one_round (request_of (SummarizeText (JStr ''notes'')) signed_in) signed_in =
     (json_response 401 (JObj [(''detail'', JStr ''Token expired'')]), one_round_sent) \<and>
   refreshAccessToken one_round one_round_sent = (True, one_round_refreshed) \<and>
   fetch one_round (request_of (SummarizeText (JStr ''notes'')) one_round_refreshed)
       one_round_refreshed =
     (json_response 200 (JObj [(''summary'', JStr ''short'')]), one_round_done) \<and>
   run one_round (SummarizeText (JStr ''notes'')) signed_in =
     Some (Inr (JObj [(''summary'', JStr ''short'')]), one_round_done) \<and>
   storage one_round_done ''access_token'' = Some ''A2'' \<and>
   storage one_round_done ''refresh_token'' = Some ''R1'' \<and>
   writes_of (trace one_round_done) = [SetItem ''access_token'' ''A2''] \<and>
   map authorization (sent one_round_done) = [Some ''Bearer A1'', None, Some ''Bearer A2'']"
proof -
  let ?op = "SummarizeText (JStr ''notes'')"
  let ?r1 = "\<lparr>status = 401, parsed = Some (JObj [(''detail'', JStr ''Token expired'')]), blob = []\<rparr>"
  let ?r2 = "\<lparr>status = 200, parsed = Some (JObj [(''summary'', JStr ''short'')]), blob = []\<rparr>"
  have h0: "storage signed_in ''refresh_token'' = Some ''R1''"
    by (simp add: signed_in_def)
  have h1: "fetch one_round (request_of ?op signed_in) signed_in = (Inr ?r1, one_round_sent)"
    by (rule pairI) (code_simp, simp add: one_round_sent_def)
  have h2: "status ?r1 = 401" by simp
  have h3: "refreshAccessToken one_round one_round_sent = (True, one_round_refreshed)"
    by (rule pairI) (code_simp, simp add: one_round_refreshed_def)
  have h4: "fetch one_round (request_of ?op one_round_refreshed) one_round_refreshed =
      (Inr ?r2, one_round_done)"
    by (rule pairI) (code_simp, simp add: one_round_done_def)
  have h5: "status ?r2 = 200" by simp
  have h6: "parsed ?r2 = Some (JObj [(''summary'', JStr ''short'')])" by simp
  have e1: "storage one_round_done ''access_token'' = Some ''A2''" by code_simp
  have e2: "storage one_round_done ''refresh_token'' = Some ''R1''" by code_simp
  have e3: "writes_of (trace one_round_done) = [SetItem ''access_token'' ''A2'']" by code_simp
  have e4: "map authorization (sent one_round_done) = [Some ''Bearer A1'', None, Some ''Bearer A2'']"
    by code_simp
  show ?thesis
    using refresh_then_retry_succeeds [OF h0 h1 h2 h3 h4 h5 h6] h0 h1 h3 h4 e1 e2 e3 e4
    by (simp add: json_response_def)
qed

text \<open>
  C4. The specification says that on a 2xx response \<open>verifyOTP\<close> stores both tokens
  and resolves with the parsed body, and that on a response that is not 2xx it rejects and
  writes nothing. The first half fails for a 2xx response whose body is the JSON value
  \<^verbatim>\<open>null\<close>: reading \<^verbatim>\<open>data.access_token\<close> raises a \<open>TypeError\<close>, the call rejects
  and nothing is stored.
\<close>

theorem verifyOTP_null_body_counterexample:
  "fst (fetch otp_null_body (verifyOTP_request signed_out (JStr ''a@b.com'') (JStr ''123456''))
          signed_out) = json_response 200 JNull \<and>
   fst (verifyOTP otp_null_body (JStr ''a@b.com'') (JStr ''123456'') signed_out) = Inl TypeError \<and>
   storage (snd (verifyOTP otp_null_body (JStr ''a@b.com'') (JStr ''123456'') signed_out))
     ''access_token'' = None \<and>
   storage (snd (verifyOTP otp_null_body (JStr ''a@b.com'') (JStr ''123456'') signed_out))
     ''refresh_token'' = None \<and>
   writes_of (trace (snd (verifyOTP otp_null_body (JStr ''a@b.com'') (JStr ''123456'') signed_out))) =
     []"
  by code_simp

text \<open>
  C4, as the code has it. \<open>verifyOTP\<close> on a 2xx response whose body parses to a value
  other than \<^verbatim>\<open>null\<close>, so that the two tokens can be read from it, resolves with the
  parsed body and stores both: the two \<open>setItem\<close> calls are the last two events of the
  call, next to each other, with no request between them. On a response that is not 2xx,
  and on a 2xx response whose body is \<^verbatim>\<open>null\<close> or is not JSON, it rejects. In every
  outcome the call has either rejected and written nothing, or resolved and written both
  tokens.
\<close>

theorem verifyOTP_all_or_nothing:
  assumes "fetch be (verifyOTP_request w email otp) w = (Inr res, w1)"
  shows "(ok res \<and> parsed res = Some data \<and> get_prop data ''access_token'' = Inr access \<and>
          get_prop data ''refresh_token'' = Inr refresh \<longrightarrow>
            fst (verifyOTP be email otp w) = Inr data \<and>
            storage (snd (verifyOTP be email otp w)) =
              (storage w)(''access_token'' \<mapsto> js_String access,
                          ''refresh_token'' \<mapsto> js_String refresh) \<and>
            trace (snd (verifyOTP be email otp w)) =
              trace w @ [Fetch (verifyOTP_request w email otp),
                         SetItem ''access_token'' (js_String access),
                         SetItem ''refresh_token'' (js_String refresh)]) \<and>
         (\<not> ok res \<longrightarrow>
            (\<exists>e. fst (verifyOTP be email otp w) = Inl e) \<and>
            storage (snd (verifyOTP be email otp w)) = storage w \<and>
            writes_of (trace (snd (verifyOTP be email otp w))) = writes_of (trace w)) \<and>
         (fst (verifyOTP be email otp w) = Inl e' \<longrightarrow>
            storage (snd (verifyOTP be email otp w)) = storage w \<and>
            writes_of (trace (snd (verifyOTP be email otp w))) = writes_of (trace w)) \<and>
         (fst (verifyOTP be email otp w) = Inr d \<longrightarrow>
            (\<exists>a r. storage (snd (verifyOTP be email otp w)) =
                     (storage w)(''access_token'' \<mapsto> a, ''refresh_token'' \<mapsto> r) \<and>
                   writes_of (trace (snd (verifyOTP be email otp w))) =
                     writes_of (trace w) @
                       [SetItem ''access_token'' a, SetItem ''refresh_token'' r])) \<and>
         (ok res \<and> (parsed res = None \<or> parsed res = Some JNull) \<longrightarrow>
            (\<exists>e. fst (verifyOTP be email otp w) = Inl e))"
proof -
  have "ok res \<and> (parsed res = None \<or> parsed res = Some JNull) \<longrightarrow>
            (\<exists>e. fst (verifyOTP be email otp w) = Inl e)"
    using assms by (auto simp: verifyOTP_def fetch_def res_json_def)
  moreover
  have "ok res \<and> parsed res = Some data \<and> get_prop data ''access_token'' = Inr access \<and>
          get_prop data ''refresh_token'' = Inr refresh \<longrightarrow>
            fst (verifyOTP be email otp w) = Inr data \<and>
            storage (snd (verifyOTP be email otp w)) =
              (storage w)(''access_token'' \<mapsto> js_String access,
                          ''refresh_token'' \<mapsto> js_String refresh) \<and>
            trace (snd (verifyOTP be email otp w)) =
              trace w @ [Fetch (verifyOTP_request w email otp),
                         SetItem ''access_token'' (js_String access),
                         SetItem ''refresh_token'' (js_String refresh)]"
    using assms
    by (auto simp: verifyOTP_def fetch_def res_json_def setItem_def Let_def)
  moreover have "\<not> ok res \<longrightarrow>
            (\<exists>e. fst (verifyOTP be email otp w) = Inl e) \<and>
            storage (snd (verifyOTP be email otp w)) = storage w \<and>
            writes_of (trace (snd (verifyOTP be email otp w))) = writes_of (trace w)"
    using assms
    by (auto simp: verifyOTP_def fetch_def res_json_def writes_of_append split: option.splits)
  ultimately show ?thesis
    using verifyOTP_failure_writes_nothing [of be email otp w e']
      verifyOTP_success_writes_both [of be email otp w d]
    by blast
qed

theorem verifyOTP_all_or_nothing_witness:
  "fst (verifyOTP otp_accepted (JStr ''a@b.com'') (JStr ''123456'') signed_out) =
     Inr (JObj [(''access_token'', JStr ''A1''), (''refresh_token'', JStr ''R1''),
                (''user'', JObj [(''email'', JStr ''a@b.com'')])]) \<and>
   storage (snd (verifyOTP otp_accepted (JStr ''a@b.com'') (JStr ''123456'') signed_out)) =
     (storage signed_out)(''access_token'' \<mapsto> ''A1'', ''refresh_token'' \<mapsto> ''R1'') \<and>
   trace (snd (verifyOTP otp_accepted (JStr ''a@b.com'') (JStr ''123456'') signed_out)) =
     trace signed_out @
       [Fetch (verifyOTP_request signed_out (JStr ''a@b.com'') (JStr ''123456'')),
        SetItem ''access_token'' ''A1'', SetItem ''refresh_token'' ''R1''] \<and>
   (\<exists>e. fst (verifyOTP otp_rejected (JStr ''a@b.com'') (JStr ''000000'') signed_out) = Inl e) \<and>
   storage (snd (verifyOTP otp_rejected (JStr ''a@b.com'') (JStr ''000000'') signed_out)) =
     storage signed_out"
proof -
  let ?data = "JObj [(''access_token'', JStr ''A1''), (''refresh_token'', JStr ''R1''),
                (''user'', JObj [(''email'', JStr ''a@b.com'')])]"
  let ?good = "\<lparr>status = 200, parsed = Some ?data, blob = []\<rparr>"
  let ?bad = "\<lparr>status = 400, parsed = Some (JObj [(''detail'', JStr ''Invalid or expired OTP'')]),
              blob = []\<rparr>"
  have g: "fetch otp_accepted (verifyOTP_request signed_out (JStr ''a@b.com'') (JStr ''123456''))
      signed_out =
      (Inr ?good,
       snd (fetch otp_accepted (verifyOTP_request signed_out (JStr ''a@b.com'') (JStr ''123456''))
         signed_out))"
    by (rule pairI) (code_simp, simp)
  have b: "fetch otp_rejected (verifyOTP_request signed_out (JStr ''a@b.com'') (JStr ''000000''))
      signed_out =
      (Inr ?bad,
       snd (fetch otp_rejected (verifyOTP_request signed_out (JStr ''a@b.com'') (JStr ''000000''))
         signed_out))"
    by (rule pairI) (code_simp, simp)
  have g1: "ok ?good" and b1: "\<not> ok ?bad" by (simp_all add: ok_def)
  have g2: "get_prop ?data ''access_token'' = Inr (JStr ''A1'')"
    and g3: "get_prop ?data ''refresh_token'' = Inr (JStr ''R1'')"
    by simp_all
  show ?thesis
    using verifyOTP_all_or_nothing [OF g, where data = ?data and access = "JStr ''A1''"
          and refresh = "JStr ''R1''" and e' = undefined and d = undefined]
      verifyOTP_all_or_nothing [OF b, where data = undefined and access = undefined
          and refresh = undefined and e' = undefined and d = undefined]
      g1 b1 g2 g3
    by simp
qed

text \<open>
  C5. The specification says that with no access token stored the request has no
  Authorization header, and that with one stored it carries \<^verbatim>\<open>Bearer <token>\<close>. The
  second half fails for a stored token that is the empty string: \<^verbatim>\<open>token && {...}\<close>
  treats it as absent, and the request goes out without the header.
\<close>

theorem empty_token_counterexample:
  "storage blank_token ''access_token'' = Some [] \<and>
   authorization (request_of GetUserProfile blank_token) = None \<and>
   map_option (map authorization \<circ> sent \<circ> snd) (run always_ok GetUserProfile blank_token) =
     Some [None]"
  by code_simp

text \<open>
  C5, as the code has it. The request of a protected operation carries no Authorization
  header when no access token is stored or the stored one is the empty string, and
  \<^verbatim>\<open>Bearer <token>\<close> otherwise; the token is read from the storage at the time of the
  call, and that request is the first thing the call sends.
\<close>

theorem authorization_follows_storage:
  "authorization (request_of op w) =
     (case storage w ''access_token'' of
        None \<Rightarrow> None
      | Some t \<Rightarrow> if t = [] then None else Some (''Bearer '' @ t)) \<and>
   (run be op w = Some y \<longrightarrow> (\<exists>es. trace (snd y) = trace w @ Fetch (request_of op w) # es))"
proof -
  have "run be op w = Some y \<Longrightarrow> \<exists>es. trace (snd y) = trace w @ Fetch (request_of op w) # es"
    using run_frame [of be op w y] by (simp add: frame_def)
  then show ?thesis
    using authorization_request_of [of op w] by blast
qed

theorem authorization_follows_storage_witness:
  "authorization (request_of GetUserProfile signed_in) = Some ''Bearer A1'' \<and>
   authorization (request_of GetUserProfile signed_out) = None \<and>
   run always_ok GetUserProfile signed_in \<noteq> None \<and>
   (\<exists>es. trace (snd (the (run always_ok GetUserProfile signed_in))) =
      trace signed_in @ Fetch (request_of GetUserProfile signed_in) # es)"
proof -
  have r: "run always_ok GetUserProfile signed_in \<noteq> None" by code_simp
  then have r': "run always_ok GetUserProfile signed_in =
      Some (the (run always_ok GetUserProfile signed_in))"
    by simp
  have s1: "storage signed_in ''access_token'' = Some ''A1''" by (simp add: signed_in_def)
  have s2: "storage signed_out ''access_token'' = None" by (simp add: signed_out_def)
  show ?thesis
    using authorization_follows_storage [of GetUserProfile signed_in always_ok
        "the (run always_ok GetUserProfile signed_in)"]
      authorization_follows_storage [of GetUserProfile signed_out always_ok undefined]
      r r' s1 s2
    by simp
qed

text \<open>
  C6. If no refresh token is stored, \<open>refreshAccessToken\<close> returns false at once and the
  world is unchanged: in particular the trace gains no request.
\<close>

theorem refreshAccessToken_no_token:
  assumes "storage w ''refresh_token'' = None"
  shows "refreshAccessToken be w = (False, w)"
  using assms by (simp add: refreshAccessToken_def getItem_def)

theorem refreshAccessToken_no_token_witness:
  "storage signed_out ''refresh_token'' = None \<and>
   refreshAccessToken two_rounds signed_out = (False, signed_out)"
proof -
  have h: "storage signed_out ''refresh_token'' = None"
    by (simp add: signed_out_def)
  show ?thesis
    using refreshAccessToken_no_token [OF h, of two_rounds] h by simp
qed

text \<open>
  C7. \<open>logout\<close> has no failing branch: it returns normally from every world, whether or
  not tokens are stored, and afterwards neither token is in the storage. Nothing else in
  the storage changes.
\<close>

theorem logout_clears_both:
  "fst (logout w) = Inr JUndefined \<and>
   storage (snd (logout w)) = (storage w)(''access_token'' := None, ''refresh_token'' := None) \<and>
   storage (snd (logout w)) ''access_token'' = None \<and>
   storage (snd (logout w)) ''refresh_token'' = None"
  by (simp add: logout_def removeItem_def)

theorem logout_clears_both_witness:
  "fst (logout signed_out) = Inr JUndefined \<and>
   storage (snd (logout signed_out)) ''access_token'' = None \<and>
   storage (snd (logout signed_out)) ''refresh_token'' = None \<and>
   fst (logout signed_in) = Inr JUndefined \<and>
   storage (snd (logout signed_in)) ''access_token'' = None \<and>
   storage (snd (logout signed_in)) ''refresh_token'' = None"
  using logout_clears_both [of signed_out] logout_clears_both [of signed_in] by simp

text \<open>
  C8. \<open>downloadQuizPdf\<close> sends one request, without an Authorization header whatever the
  storage holds, and never writes to the storage. When the transport fails or the response
  is not 2xx it rejects, and whenever it rejects the exception it throws is the one it has
  just logged with \<^verbatim>\<open>console.error\<close>, the last event of the call.
\<close>

theorem downloadQuizPdf_logs_and_rethrows:
  "authorization (downloadQuizPdf_request w title quizData) = None \<and>
   sent (snd (downloadQuizPdf be title quizData w)) =
     sent w @ [downloadQuizPdf_request w title quizData] \<and>
   storage (snd (downloadQuizPdf be title quizData w)) = storage w \<and>
   writes_of (trace (snd (downloadQuizPdf be title quizData w))) = writes_of (trace w) \<and>
   (be (sent w) (downloadQuizPdf_request w title quizData) = Inl e \<longrightarrow>
      downloadQuizPdf be title quizData w =
        (Inl e, w\<lparr>trace := trace w @ [Fetch (downloadQuizPdf_request w title quizData),
                                     ConsoleError ''Download failed:'' e]\<rparr>)) \<and>
   (be (sent w) (downloadQuizPdf_request w title quizData) = Inr res \<and> \<not> ok res \<longrightarrow>
      (\<exists>x. downloadQuizPdf be title quizData w =
        (Inl x, w\<lparr>trace := trace w @ [Fetch (downloadQuizPdf_request w title quizData),
                                     ConsoleError ''Download failed:'' x]\<rparr>))) \<and>
   (fst (downloadQuizPdf be title quizData w) = Inl e' \<longrightarrow>
      trace (snd (downloadQuizPdf be title quizData w)) =
        trace w @ [Fetch (downloadQuizPdf_request w title quizData),
                   ConsoleError ''Download failed:'' e'])"
  by (auto simp: downloadQuizPdf_def fetch_def console_error_def save_file_def sent_def
      sent_of_append writes_of_append authorization_def downloadQuizPdf_request_def
      split: sum.splits)

theorem downloadQuizPdf_logs_and_rethrows_witness:
  "offline (sent signed_in) (downloadQuizPdf_request signed_in (JStr ''Quiz'') (JArr [])) =
     Inl (Error ''Failed to fetch'') \<and>
   downloadQuizPdf offline (JStr ''Quiz'') (JArr []) signed_in =
     (Inl (Error ''Failed to fetch''),
      signed_in\<lparr>trace := trace signed_in @
        [Fetch (downloadQuizPdf_request signed_in (JStr ''Quiz'') (JArr [])),
         ConsoleError ''Download failed:'' (Error ''Failed to fetch'')]\<rparr>) \<and>
   server_error (sent signed_in) (downloadQuizPdf_request signed_in (JStr ''Quiz'') (JArr [])) =
     json_response 500 (JObj [(''detail'', JStr ''Internal error'')]) \<and>
   (\<exists>x. downloadQuizPdf server_error (JStr ''Quiz'') (JArr []) signed_in =
     (Inl x,
      signed_in\<lparr>trace := trace signed_in @
        [Fetch (downloadQuizPdf_request signed_in (JStr ''Quiz'') (JArr [])),
         ConsoleError ''Download failed:'' x]\<rparr>)) \<and>
   storage (snd (downloadQuizPdf server_error (JStr ''Quiz'') (JArr []) signed_in)) =
     storage signed_in"
proof -
  let ?r = "\<lparr>status = 500, parsed = Some (JObj [(''detail'', JStr ''Internal error'')]), blob = []\<rparr>"
  have a: "offline (sent signed_in) (downloadQuizPdf_request signed_in (JStr ''Quiz'') (JArr [])) =
      Inl (Error ''Failed to fetch'')"
    by code_simp
  have b: "server_error (sent signed_in)
      (downloadQuizPdf_request signed_in (JStr ''Quiz'') (JArr [])) = Inr ?r"
    by code_simp
  have c: "\<not> ok ?r" by (simp add: ok_def)
  show ?thesis
    using downloadQuizPdf_logs_and_rethrows
        [of signed_in "JStr ''Quiz''" "JArr []" offline "Error ''Failed to fetch''" undefined undefined]
      downloadQuizPdf_logs_and_rethrows
        [of signed_in "JStr ''Quiz''" "JArr []" server_error undefined ?r undefined]
      a b c
    by (simp add: json_response_def)
qed

text \<open>
  C9. For every call of the module that sends a request, a first response that is neither
  2xx nor 401 makes the call reject with the storage as it was and no storage write in the
  trace. \<open>refreshAccessToken\<close> removes nothing: when it returns false the storage is
  unchanged. \<open>verifyOTP\<close> removes nothing. A settled call that has removed a key is a
  protected call that failed with the session-expired error after clearing both tokens.
\<close>

theorem other_failures_keep_tokens:
  "(fetch be (first_request c w) w = (Inr res, w1) \<and> \<not> ok res \<and> status res \<noteq> 401 \<longrightarrow>
      (\<exists>e w'. call be c w = Some (Inl e, w') \<and> storage w' = storage w \<and>
               writes_of (trace w') = writes_of (trace w))) \<and>
   (\<not> fst (refreshAccessToken be w) \<longrightarrow>
      storage (snd (refreshAccessToken be w)) = storage w \<and>
      writes_of (trace (snd (refreshAccessToken be w))) = writes_of (trace w)) \<and>
   dom (storage w) \<subseteq> dom (storage (snd (refreshAccessToken be w))) \<and>
   dom (storage w) \<subseteq> dom (storage (snd (verifyOTP be email otp w))) \<and>
   (call be c w = Some (r, w') \<longrightarrow>
      dom (storage w) \<subseteq> dom (storage w') \<or>
      ((\<exists>op. c = Protected op) \<and> r = Inl session_expired \<and>
       storage w' = (storage w)(''access_token'' := None, ''refresh_token'' := None)))"
  using call_other_failure [of be c w res w1]
    refresh_never_removes [where w = w and be = be]
    verifyOTP_dom [where w = w and be = be and email = email and otp = otp]
    call_keeps_tokens [of be c w r w']
  by blast

theorem other_failures_keep_tokens_witness:
  "fetch server_error (first_request (Protected (GenerateQuiz (JStr ''notes''))) signed_in)
       signed_in =
     (json_response 500 (JObj [(''detail'', JStr ''Internal error'')]),
      snd (fetch server_error (first_request (Protected (GenerateQuiz (JStr ''notes''))) signed_in)
             signed_in)) \<and>
   (\<exists>e w'. call server_error (Protected (GenerateQuiz (JStr ''notes''))) signed_in =
              Some (Inl e, w') \<and>
            storage w' = storage signed_in \<and>
            writes_of (trace w') = writes_of (trace signed_in)) \<and>
   \<not> fst (refreshAccessToken refresh_rejected rejected_sent) \<and>
   storage (snd (refreshAccessToken refresh_rejected rejected_sent)) = storage rejected_sent"
proof -
  let ?c = "Protected (GenerateQuiz (JStr ''notes''))"
  let ?r = "\<lparr>status = 500, parsed = Some (JObj [(''detail'', JStr ''Internal error'')]), blob = []\<rparr>"
  have a: "fetch server_error (first_request ?c signed_in) signed_in =
      (Inr ?r, snd (fetch server_error (first_request ?c signed_in) signed_in))"
    by (rule pairI) (code_simp, simp)
  have b: "\<not> ok ?r" "status ?r \<noteq> 401" by (simp_all add: ok_def)
  have c: "\<not> fst (refreshAccessToken refresh_rejected rejected_sent)" by code_simp
  show ?thesis
    using other_failures_keep_tokens
        [of server_error ?c signed_in ?r
          "snd (fetch server_error (first_request ?c signed_in) signed_in)"
          undefined undefined undefined undefined]
      other_failures_keep_tokens
        [of refresh_rejected ?c rejected_sent ?r undefined undefined undefined undefined undefined]
      a b c
    by (simp add: json_response_def)
qed

text \<open>
  C10. In every protected operation \<open>handleAuthError\<close> runs before the test of
  \<^verbatim>\<open>res.ok\<close>. A 401 response therefore never reaches the branch that reads the error
  body: the call is what the refresh makes of it, a new call of the same operation when
  the refresh succeeds and the session-expired error when it fails. Neither alternative
  mentions the body of the 401 response or the operation's own error message.
\<close>

theorem unauthorized_never_reads_error_body:
  assumes "fetch be (request_of op w) w = (Inr res, w1)" and "status res = 401"
  shows "run be op w =
     (case refreshAccessToken be w1 of
        (refreshed, w2) \<Rightarrow>
          if refreshed then run be op w2
          else Some (Inl session_expired,
                navigate ''/login'' (removeItem ''refresh_token'' (removeItem ''access_token'' w2))))"
  using assms by (rule run_on_401)

theorem unauthorized_never_reads_error_body_witness:
  "fetch refresh_rejected (request_of (SummarizeText (JStr ''notes'')) signed_in) signed_in =
     (json_response 401 (JObj [(''detail'', JStr ''Token expired'')]), rejected_sent) \<and>
   run refresh_rejected (SummarizeText (JStr ''notes'')) signed_in =
     (case refreshAccessToken refresh_rejected rejected_sent of
        (refreshed, w2) \<Rightarrow>
          if refreshed then run refresh_rejected (SummarizeText (JStr ''notes'')) w2
          else Some (Inl session_expired,
                navigate ''/login'' (removeItem ''refresh_token'' (removeItem ''access_token'' w2)))) \<and>
   map_option fst (run refresh_rejected (SummarizeText (JStr ''notes'')) signed_in) =
     Some (Inl session_expired)"
proof -
  let ?r = "\<lparr>status = 401, parsed = Some (JObj [(''detail'', JStr ''Token expired'')]), blob = []\<rparr>"
  have h1: "fetch refresh_rejected (request_of (SummarizeText (JStr ''notes'')) signed_in) signed_in =
      (Inr ?r, rejected_sent)"
    by (rule pairI) (code_simp, simp add: rejected_sent_def)
  have h2: "status ?r = 401" by simp
  have e: "map_option fst (run refresh_rejected (SummarizeText (JStr ''notes'')) signed_in) =
      Some (Inl session_expired)"
    by code_simp
  show ?thesis
    using unauthorized_never_reads_error_body [OF h1 h2] h1 e
    by (simp add: json_response_def)
qed

end
